theory Spec2Isabelle
  imports Complex_Main "HOL-Library.Word"
begin

section \<open>Values of the program\<close>

subsection \<open>Floating-point numbers\<close>

text \<open>
  A \<^verbatim>\<open>double\<close> or a \<^verbatim>\<open>float\<close> is a finite value, an infinity or NaN; \<open>Fin 0\<close> is
  +0.0 and \<open>NZero\<close> is -0.0. Every arithmetic operation computes the exact result of
  its finite operands and rounds it to the format of the operation, binary64 for
  \<^verbatim>\<open>double\<close> and binary32 for \<^verbatim>\<open>float\<close>, to the nearest value of the format with
  ties to the even significand (IEEE 754; each operation is rounded on its own, as the
  SSE2 code of x86-64 does without fused multiply-add). A result beyond the largest
  value of the format is an infinity; results below the smallest normal value are
  rounded on the subnormal grid, down to a zero of the sign of the exact result. NaN
  propagates; 0/0, inf/inf, inf - inf, 0 * inf and the square root of a negative value
  are NaN; a non-zero finite value divided by a zero is an infinity.
\<close>

datatype fp = Fin real | NZero | PInf | NInf | NaN

text \<open>The power of two with an integer exponent.\<close>

definition pow2 :: "int \<Rightarrow> real" where
  "pow2 k = (if 0 \<le> k then 2 ^ nat k else 1 / 2 ^ nat (- k))"

text \<open>
  A positive real r as m * 2^e: for r at least 1, halve it until it is below 2; for r
  below 1, double it until it reaches 1 or the exponent reaches the least exponent
  \<open>lo\<close> of the format (the subnormal range).
\<close>

function scale_down :: "real \<Rightarrow> int \<Rightarrow> real \<times> int" where
  "scale_down r e = (if 2 \<le> r then scale_down (r / 2) (e + 1) else (r, e))"
  by pat_completeness auto
termination
proof (relation "measure (\<lambda>(r, e). nat \<lceil>r\<rceil>)")
  show "wf (measure (\<lambda>(r, e). nat \<lceil>r\<rceil>))" by simp
next
  fix r :: real and e :: int
  assume r: "2 \<le> r"
  then have "r / 2 \<le> r - 1" by simp
  then have "\<lceil>r / 2\<rceil> \<le> \<lceil>r - 1\<rceil>" by (rule ceiling_mono)
  moreover have "0 < \<lceil>r\<rceil>" using r by simp
  ultimately show "((r / 2, e + 1), (r, e)) \<in> measure (\<lambda>(r, e). nat \<lceil>r\<rceil>)"
    by simp
qed

function scale_up :: "int \<Rightarrow> real \<Rightarrow> int \<Rightarrow> real \<times> int" where
  "scale_up lo r e = (if r < 1 \<and> lo < e then scale_up lo (2 * r) (e - 1) else (r, e))"
  by pat_completeness auto
termination
  by (relation "measure (\<lambda>(lo, r, e). nat (e - lo))") auto

declare scale_down.simps [simp del] scale_up.simps [simp del]

definition normalise :: "int \<Rightarrow> real \<Rightarrow> real \<times> int" where
  "normalise lo r = (if 1 \<le> r then scale_down r 0 else scale_up lo r 0)"

text \<open>The nearest integer, a tie going to the even one.\<close>

definition round_even :: "real \<Rightarrow> int" where
  "round_even q =
     (let n = \<lfloor>q\<rfloor>; d = q - of_int n
      in if d < 1 / 2 then n else if 1 / 2 < d then n + 1 else if even n then n else n + 1)"

text \<open>
  Rounding a real to the format with p significant bits and exponents from \<open>lo\<close> to
  \<open>hi\<close>: the significand m * 2^(p - 1) is rounded to an integer n, and the value is
  n * 2^(e - (p - 1)), or an infinity from 2^(hi + 1) on, or a zero with the sign of
  the real when n is 0.
\<close>

definition round_to :: "nat \<Rightarrow> int \<Rightarrow> int \<Rightarrow> real \<Rightarrow> fp" where
  "round_to p lo hi r =
     (if r = 0 then Fin 0
      else case normalise lo \<bar>r\<bar> of (m, e) \<Rightarrow>
        let n = round_even (m * 2 ^ (p - 1));
            v = of_int n * pow2 (e - int (p - 1))
        in if pow2 (hi + 1) \<le> v then (if 0 < r then PInf else NInf)
           else if v = 0 then (if 0 < r then Fin 0 else NZero)
           else Fin (if 0 < r then v else - v))"

definition round_double :: "real \<Rightarrow> fp" where
  "round_double r = round_to 53 (- 1022) 1023 r"

definition round_float :: "real \<Rightarrow> fp" where
  "round_float r = round_to 24 (- 126) 127 r"

text \<open>The sign bit, the kinds of values, and the real a finite value is.\<close>

fun negative :: "fp \<Rightarrow> bool" where
  "negative (Fin r) = (r < 0)"
| "negative NZero = True"
| "negative PInf = False"
| "negative NInf = True"
| "negative NaN = False"

definition is_zero :: "fp \<Rightarrow> bool" where
  "is_zero x = (x = Fin 0 \<or> x = NZero)"

definition is_inf :: "fp \<Rightarrow> bool" where
  "is_inf x = (x = PInf \<or> x = NInf)"

fun value_of :: "fp \<Rightarrow> real" where
  "value_of (Fin r) = r"
| "value_of x = 0"

definition zero_signed :: "bool \<Rightarrow> fp" where
  "zero_signed neg = (if neg then NZero else Fin 0)"

definition inf_signed :: "bool \<Rightarrow> fp" where
  "inf_signed neg = (if neg then NInf else PInf)"

text \<open>
  Sum, product and quotient, rounded by \<open>rnd\<close>. An exact sum of zero is +0.0 unless
  both operands are -0.0; a zero product or quotient has the sign of its operands'
  signs combined.
\<close>

definition add_rounded :: "(real \<Rightarrow> fp) \<Rightarrow> fp \<Rightarrow> fp \<Rightarrow> fp" where
  "add_rounded rnd x y =
     (if x = NaN \<or> y = NaN then NaN
      else if is_inf x \<and> is_inf y then (if x = y then x else NaN)
      else if is_inf x then x
      else if is_inf y then y
      else if x = NZero \<and> y = NZero then NZero
      else rnd (value_of x + value_of y))"

definition mul_rounded :: "(real \<Rightarrow> fp) \<Rightarrow> fp \<Rightarrow> fp \<Rightarrow> fp" where
  "mul_rounded rnd x y =
     (if x = NaN \<or> y = NaN then NaN
      else if is_inf x \<or> is_inf y
        then (if is_zero x \<or> is_zero y then NaN else inf_signed (negative x \<noteq> negative y))
      else if is_zero x \<or> is_zero y then zero_signed (negative x \<noteq> negative y)
      else rnd (value_of x * value_of y))"

definition div_rounded :: "(real \<Rightarrow> fp) \<Rightarrow> fp \<Rightarrow> fp \<Rightarrow> fp" where
  "div_rounded rnd x y =
     (if x = NaN \<or> y = NaN then NaN
      else if is_inf x
        then (if is_inf y then NaN else inf_signed (negative x \<noteq> negative y))
      else if is_inf y then zero_signed (negative x \<noteq> negative y)
      else if is_zero y
        then (if is_zero x then NaN else inf_signed (negative x \<noteq> negative y))
      else if is_zero x then zero_signed (negative x \<noteq> negative y)
      else rnd (value_of x / value_of y))"

text \<open>The operations on \<^verbatim>\<open>double\<close>.\<close>

definition fadd :: "fp \<Rightarrow> fp \<Rightarrow> fp" where
  "fadd x y = add_rounded round_double x y"

definition fmul :: "fp \<Rightarrow> fp \<Rightarrow> fp" where
  "fmul x y = mul_rounded round_double x y"

definition fdiv :: "fp \<Rightarrow> fp \<Rightarrow> fp" where
  "fdiv x y = div_rounded round_double x y"

fun fneg :: "fp \<Rightarrow> fp" where
  "fneg NaN = NaN"
| "fneg (Fin a) = (if a = 0 then NZero else Fin (- a))"
| "fneg NZero = Fin 0"
| "fneg PInf = NInf"
| "fneg NInf = PInf"

definition fsub :: "fp \<Rightarrow> fp \<Rightarrow> fp" where
  "fsub x y = fadd x (fneg y)"

definition fsqrt :: "fp \<Rightarrow> fp" where
  "fsqrt x =
     (if x = NaN then NaN
      else if is_zero x then x
      else if negative x then NaN
      else if x = PInf then PInf
      else round_double (sqrt (value_of x)))"

text \<open>\<^verbatim>\<open>pow(x, 2)\<close>: the square.\<close>

definition fpow2 :: "fp \<Rightarrow> fp" where
  "fpow2 x = fmul x x"

text \<open>
  The two operations the program performs on \<^verbatim>\<open>float\<close>: the sum of two floats and
  the quotient of two floats, rounded to binary32. A float converts to \<^verbatim>\<open>double\<close>
  unchanged.
\<close>

definition fadd_float :: "fp \<Rightarrow> fp \<Rightarrow> fp" where
  "fadd_float x y = add_rounded round_float x y"

definition fdiv_float :: "fp \<Rightarrow> fp \<Rightarrow> fp" where
  "fdiv_float x y = div_rounded round_float x y"

text \<open>
  The conversion of an \<^verbatim>\<open>int\<close> to \<^verbatim>\<open>double\<close>. An \<^verbatim>\<open>int\<close> has 32 bits, and every
  32-bit integer is a value of binary64: the conversion is exact.
\<close>

definition double_of_int :: "int \<Rightarrow> fp" where
  "double_of_int n = Fin (of_int n)"

text \<open>
  Modelled from the spec: \<^verbatim>\<open>is_nan\<close> of \<^verbatim>\<open>utility.hpp\<close>, a header that is not among
  the sources. The spec calls the value it recognises the not-a-value marker of a pixel.
\<close>

definition is_nan :: "fp \<Rightarrow> bool" where
  "is_nan v = (v = NaN)"

section \<open>The statistics accumulator\<close>

text \<open>
  \<^verbatim>\<open>vector_info(iterator_begin, iterator_end)\<close> of \<^verbatim>\<open>run_random_vector.cpp\<close>. The
  iterator class lives in \<^verbatim>\<open>vector.hpp\<close>, which is not among the sources; the range
  from \<^verbatim>\<open>iterator_begin\<close> to \<^verbatim>\<open>iterator_end\<close> is represented by the list of the
  tuples \<^verbatim>\<open>iterator.snr_info()\<close> returns at its positions: pixel value (a
  \<^verbatim>\<open>float\<close>), number of pixels (an \<^verbatim>\<open>int\<close>), exposure time (a \<^verbatim>\<open>double\<close>). The
  range is empty exactly when the two iterators are equal.
\<close>

type_synonym snr_info = "fp \<times> int \<times> fp"

text \<open>
  The local variables of the function. \<^verbatim>\<open>total_signal\<close> has the value type of the
  iterator, \<^verbatim>\<open>float\<close>; the other totals are \<^verbatim>\<open>double\<close>. \<^verbatim>\<open>total_exposure\<close> is
  declared and never written; the exposure times are summed in \<^verbatim>\<open>total_time\<close>.
  \<^verbatim>\<open>frame_num\<close> is an \<^verbatim>\<open>int\<close>, a 32-bit word read as a signed value; the increment
  wraps around as the machine addition does.
\<close>

record accum =
  total_signal :: fp
  total_exposure :: fp
  total_B :: fp
  total_R :: fp
  total_D :: fp
  total_time :: fp
  frame_num :: "32 word"

text \<open>The constant 0.417 is the double nearest to it.\<close>

definition dark_noise :: fp where
  "dark_noise = round_double 0.417"

definition readout_noise :: fp where
  "readout_noise = Fin 7"

definition accum_init :: accum where
  "accum_init = \<lparr>total_signal = Fin 0, total_exposure = Fin 0, total_B = Fin 0,
     total_R = Fin 0, total_D = Fin 0, total_time = Fin 0, frame_num = 0\<rparr>"

text \<open>
  One pass of the loop body for a step whose value is not NaN. The sum
  \<^verbatim>\<open>total_signal += value\<close> and the quotient \<^verbatim>\<open>value / 3\<close> are operations on
  \<^verbatim>\<open>float\<close> (the 3 converts to 3.0f); B is that quotient as a \<^verbatim>\<open>double\<close>, and the
  other operations are on \<^verbatim>\<open>double\<close>.
\<close>

definition accumulate :: "accum \<Rightarrow> snr_info \<Rightarrow> accum" where
  "accumulate a s =
     (case s of (val, num_pixels, exp_time) \<Rightarrow>
        let B = fdiv_float val (Fin 3) in
        a\<lparr>total_signal := fadd_float (total_signal a) val,
          frame_num := frame_num a + 1,
          total_B := fadd (total_B a) (fmul B (double_of_int num_pixels)),
          total_R := fadd (total_R a)
             (fdiv (fmul (double_of_int num_pixels) (fpow2 readout_noise)) exp_time),
          total_D := fadd (total_D a) (fmul dark_noise (double_of_int num_pixels)),
          total_time := fadd (total_time a) exp_time\<rparr>)"

fun vector_info_loop :: "accum \<Rightarrow> snr_info list \<Rightarrow> accum" where
  "vector_info_loop a [] = a"
| "vector_info_loop a (s # rest) =
     (if is_nan (fst s) then vector_info_loop a rest
      else vector_info_loop (accumulate a s) rest)"

text \<open>The last statement: \<^verbatim>\<open>total_signal\<close> converts to \<^verbatim>\<open>double\<close>, all operations are on \<^verbatim>\<open>double\<close>.\<close>

definition snr_of :: "accum \<Rightarrow> fp" where
  "snr_of a =
     fdiv (fmul (total_signal a) (fsqrt (total_time a)))
          (fsqrt (fadd (fadd (fadd (total_signal a) (total_B a)) (total_D a)) (total_R a)))"

definition vector_info :: "snr_info list \<Rightarrow> fp \<times> fp \<times> int" where
  "vector_info steps =
     (if steps = [] then (Fin 0, Fin 0, 0)
      else let a = vector_info_loop accum_init steps
           in (snr_of a, total_signal a, sint (frame_num a)))"

subsection \<open>The accumulation rule, as the specification words it\<close>

text \<open>
  The data steps are the steps whose value is not NaN. Each total is the sum, from
  zero and in the order of the sequence, of the per-step terms, in the arithmetic of the
  program: the values and the quotient v/3 are floats, everything else is a double. The
  constants are the readout noise 7, whose square is 49, and the dark noise 0.417.
\<close>

definition data_steps :: "snr_info list \<Rightarrow> snr_info list" where
  "data_steps steps = filter (\<lambda>s. \<not> is_nan (fst s)) steps"

definition fsum :: "fp list \<Rightarrow> fp" where
  "fsum xs = foldl fadd (Fin 0) xs"

definition fsum_float :: "fp list \<Rightarrow> fp" where
  "fsum_float xs = foldl fadd_float (Fin 0) xs"

definition spec_signal :: "snr_info list \<Rightarrow> fp" where
  "spec_signal ds = fsum_float (map (\<lambda>(v, n, e). v) ds)"

definition spec_B :: "snr_info list \<Rightarrow> fp" where
  "spec_B ds = fsum (map (\<lambda>(v, n, e). fmul (fdiv_float v (Fin 3)) (double_of_int n)) ds)"

definition spec_R :: "snr_info list \<Rightarrow> fp" where
  "spec_R ds = fsum (map (\<lambda>(v, n, e). fdiv (fmul (double_of_int n) (Fin 49)) e) ds)"

definition spec_D :: "snr_info list \<Rightarrow> fp" where
  "spec_D ds = fsum (map (\<lambda>(v, n, e). fmul (round_double 0.417) (double_of_int n)) ds)"

definition spec_exposure :: "snr_info list \<Rightarrow> fp" where
  "spec_exposure ds = fsum (map (\<lambda>(v, n, e). e) ds)"

definition spec_vector_info :: "snr_info list \<Rightarrow> fp \<times> fp \<times> int" where
  "spec_vector_info steps =
     (let ds = data_steps steps
      in (fdiv (fmul (spec_signal ds) (fsqrt (spec_exposure ds)))
               (fsqrt (fadd (fadd (fadd (spec_signal ds) (spec_B ds)) (spec_D ds)) (spec_R ds))),
          spec_signal ds, int (length ds)))"

section \<open>The cube\<close>

text \<open>
  A failed \<^verbatim>\<open>assert\<close> (with the asserted expression) and \<^verbatim>\<open>std::abort()\<close> after a
  message on the error stream both end the process; a function that can end the process
  returns a sum, with the reason on the left.
\<close>

datatype error = AssertionFailed string | Abort string

text \<open>
  Class \<^verbatim>\<open>cube\<close> of \<^verbatim>\<open>cube.hpp\<close>. Sizes and indices are \<^verbatim>\<open>size_t\<close>, natural
  numbers here; timestamps are \<^verbatim>\<open>unsigned long\<close>, 64-bit words. The member
  \<^verbatim>\<open>u_cube\<close> refers to the pixel store of \<^verbatim>\<open>umap_fits_file.hpp\<close>, which is not
  among the sources: it is represented by the one operation the functions below call,
  \<^verbatim>\<open>u_cube.get_rnd_coord(index)\<close>, taken to return a coordinate (x, y, k) of sizes.
\<close>

record cube =
  m_size_x :: nat
  m_size_y :: nat
  m_size_k :: nat
  u_cube :: "nat \<Rightarrow> nat \<times> nat \<times> nat"
  m_timestamp_list :: "64 word list"
  m_exposuretime_list :: "fp list"
  m_psf_list :: "fp list"
  m_ra_dec_list :: "fp list list"
  m_noise_list :: "fp list"

text \<open>
  The constructor with the metadata lists. Its argument \<^verbatim>\<open>image_data\<close> initialises a
  member the class does not declare, and \<^verbatim>\<open>u_cube\<close> has no initialiser; the pixel
  store \<^verbatim>\<open>u_cube\<close> refers to is an argument here. The five assertions are checked in
  the order of the source; assertions are compiled in (\<^verbatim>\<open>NDEBUG\<close> is not defined).
\<close>

definition cube_ctor ::
  "nat \<Rightarrow> nat \<Rightarrow> nat \<Rightarrow> (nat \<Rightarrow> nat \<times> nat \<times> nat) \<Rightarrow> 64 word list \<Rightarrow> fp list \<Rightarrow> fp list \<Rightarrow>
   fp list list \<Rightarrow> fp list \<Rightarrow> error + cube" where
  "cube_ctor size_x size_y size_k store timestamp_list exposuretime_list psf_list
     ra_dec_list noise_list =
     (let c = \<lparr>m_size_x = size_x, m_size_y = size_y, m_size_k = size_k, u_cube = store,
                m_timestamp_list = timestamp_list, m_exposuretime_list = exposuretime_list,
                m_psf_list = psf_list, m_ra_dec_list = ra_dec_list,
                m_noise_list = noise_list\<rparr>
      in if \<not> m_size_k c \<le> length (m_timestamp_list c)
           then Inl (AssertionFailed ''m_size_k <= m_timestamp_list.size()'')
         else if \<not> m_size_k c \<le> length (m_exposuretime_list c)
           then Inl (AssertionFailed ''m_size_k <= m_exposuretime_list.size()'')
         else if \<not> m_size_k c \<le> length (m_psf_list c)
           then Inl (AssertionFailed ''m_size_k <= m_psf_list.size()'')
         else if \<not> m_size_k c \<le> length (m_ra_dec_list c)
           then Inl (AssertionFailed ''m_size_k <= m_ra_dec_list.size()'')
         else if \<not> m_size_k c \<le> length (m_noise_list c)
           then Inl (AssertionFailed ''m_size_k <= m_noise_list.size()'')
         else Inr c)"

text \<open>The per-frame accessors: an assertion on the index, then the element.\<close>

definition timestamp :: "cube \<Rightarrow> nat \<Rightarrow> error + 64 word" where
  "timestamp c k =
     (if k < length (m_timestamp_list c) then Inr (m_timestamp_list c ! k)
      else Inl (AssertionFailed ''k < m_timestamp_list.size()''))"

definition exposuretime :: "cube \<Rightarrow> nat \<Rightarrow> error + fp" where
  "exposuretime c k =
     (if k < length (m_exposuretime_list c) then Inr (m_exposuretime_list c ! k)
      else Inl (AssertionFailed ''k < this->m_exposuretime_list.size()''))"

definition psf :: "cube \<Rightarrow> nat \<Rightarrow> error + fp" where
  "psf c k =
     (if k < length (m_psf_list c) then Inr (m_psf_list c ! k)
      else Inl (AssertionFailed ''k < this->m_psf_list.size()''))"

definition noise :: "cube \<Rightarrow> nat \<Rightarrow> error + fp" where
  "noise c k =
     (if k < length (m_noise_list c) then Inr (m_noise_list c ! k)
      else Inl (AssertionFailed ''k < m_noise_list.size()''))"

text \<open>
  \<^verbatim>\<open>std::round\<close>: to the nearest integer, halves away from zero. The result is a
  double without further rounding (a double of magnitude at least 2^52 is an integer).
\<close>

definition cpp_round :: "real \<Rightarrow> int" where
  "cpp_round r = (if 0 \<le> r then \<lfloor>r + 1 / 2\<rfloor> else - \<lfloor>- r + 1 / 2\<rfloor>)"

fun fround :: "fp \<Rightarrow> fp" where
  "fround (Fin r) = (if r < 0 \<and> cpp_round r = 0 then NZero else Fin (of_int (cpp_round r)))"
| "fround x = x"

text \<open>
  The conversions of an \<^verbatim>\<open>unsigned long\<close> and of a \<^verbatim>\<open>size_t\<close> to \<^verbatim>\<open>double\<close>:
  to the nearest double (values above 2^53 are rounded).
\<close>

definition double_of_ulong :: "64 word \<Rightarrow> fp" where
  "double_of_ulong w = round_double (real (unat w))"

definition double_of_size_t :: "nat \<Rightarrow> fp" where
  "double_of_size_t n = round_double (real n)"

text \<open>
  The conversion of a \<^verbatim>\<open>double\<close> to \<^verbatim>\<open>size_t\<close> truncates towards zero. C++
  defines it when the truncated value is in the range of \<^verbatim>\<open>size_t\<close>; for any other
  operand (a negative value, a value from 2^64 on, an infinity, NaN) the language
  leaves the result open, and the program has no branch for it: it goes on with what
  the conversion instruction of the machine yields. That is the parameter \<open>cast\<close>.
\<close>

definition size_t_of_double :: "(fp \<Rightarrow> nat) \<Rightarrow> fp \<Rightarrow> nat" where
  "size_t_of_double cast d =
     (case d of
        Fin r \<Rightarrow>
          (let t = (if 0 \<le> r then \<lfloor>r\<rfloor> else \<lceil>r\<rceil>)
           in if 0 \<le> t \<and> t < 2 ^ 64 then nat t else cast d)
      | NZero \<Rightarrow> 0
      | _ \<Rightarrow> cast d)"

text \<open>
  The conversion on x86-64, where it is compiled to \<^verbatim>\<open>cvttsd2si\<close>: an operand that
  truncates into the range of \<^verbatim>\<open>size_t\<close> yields that value; one that truncates to a
  value from -2^63 to -1 yields it as a 64-bit two's complement number, the value plus
  2^64; an operand that does not fit 64 bits yields 2^63, the integer indefinite value
  of the instruction. (For operands from 2^64 on, compilers differ in the instructions
  around it; no statement below is about such an operand.)
\<close>

definition x86_64_cast :: "fp \<Rightarrow> nat" where
  "x86_64_cast d =
     (case d of
        Fin r \<Rightarrow>
          (let t = (if 0 \<le> r then \<lfloor>r\<rfloor> else \<lceil>r\<rceil>)
           in if 0 \<le> t \<and> t < 2 ^ 64 then nat t
              else if - (2 ^ 63) \<le> t \<and> t < 0 then nat (t + 2 ^ 64)
              else 2 ^ 63)
      | NZero \<Rightarrow> 0
      | _ \<Rightarrow> 2 ^ 63)"

text \<open>The integer a double is, if it is one; -0.0 is the integer 0.\<close>

definition integer_of :: "fp \<Rightarrow> int option" where
  "integer_of d =
     (case d of
        Fin r \<Rightarrow> (if of_int \<lfloor>r\<rfloor> = r then Some \<lfloor>r\<rfloor> else None)
      | NZero \<Rightarrow> Some 0
      | _ \<Rightarrow> None)"

text \<open>
  \<^verbatim>\<open>cube::get_rnd_coord\<close>. The difference of the two timestamps is taken in
  \<^verbatim>\<open>unsigned long\<close> (it wraps around when the later frame has the smaller timestamp)
  and then converted to \<^verbatim>\<open>double\<close>; the product and the difference are operations on
  \<^verbatim>\<open>double\<close>, each rounded. Both calls of \<^verbatim>\<open>timestamp\<close> are made, in an order C++
  does not fix; the definition asks for frame k first, which matters only for the
  assertion that is reported when both fail.
\<close>

definition get_rnd_coord ::
  "(fp \<Rightarrow> nat) \<Rightarrow> cube \<Rightarrow> nat \<Rightarrow> fp \<Rightarrow> fp \<Rightarrow> error + (nat \<times> nat \<times> nat)" where
  "get_rnd_coord cast c index x_slope y_slope =
     (let intercept = u_cube c index;
          k = snd (snd intercept)
      in case timestamp c k of Inl e \<Rightarrow> Inl e | Inr tk \<Rightarrow>
         (case timestamp c 0 of Inl e \<Rightarrow> Inl e | Inr t0 \<Rightarrow>
         (let time_offset = double_of_ulong (tk - t0);
              x = size_t_of_double cast
                    (fround (fsub (double_of_size_t (fst intercept)) (fmul x_slope time_offset)));
              y = size_t_of_double cast
                    (fround (fsub (double_of_size_t (fst (snd intercept)))
                       (fmul y_slope time_offset)))
          in Inr (x, y, 0))))"

text \<open>
  The back-projection to frame 0 as the specification words it: the resolved
  coordinate minus slope times the time elapsed between frame 0 and frame k, rounded,
  with frame index 0. The elapsed time is the difference of the two timestamps as
  numbers; the operations are those of \<^verbatim>\<open>double\<close>.
\<close>

definition back_projection :: "cube \<Rightarrow> nat \<Rightarrow> fp \<Rightarrow> fp \<Rightarrow> fp \<times> fp \<times> nat" where
  "back_projection c index x_slope y_slope =
     (case u_cube c index of (x0, y0, k) \<Rightarrow>
        let dt = round_double
                   (real (unat (m_timestamp_list c ! k)) - real (unat (m_timestamp_list c ! 0)))
        in (fround (fsub (round_double (real x0)) (fmul x_slope dt)),
            fround (fsub (round_double (real y0)) (fmul y_slope dt)), 0))"

text \<open>
  A cube of 4 by 4 pixels and 3 frames, 100 time units apart; index i resolves to
  (i mod 4, i div 4 mod 4, i div 16).
\<close>

definition example_cube :: cube where
  "example_cube = \<lparr>m_size_x = 4, m_size_y = 4, m_size_k = 3, u_cube = (\<lambda>i. (i mod 4, (i div 4) mod 4, i div 16)),
     m_timestamp_list = [0, 100, 200], m_exposuretime_list = [Fin 40, Fin 40, Fin 40],
     m_psf_list = [Fin 1, Fin 1, Fin 1], m_ra_dec_list = [[], [], []],
     m_noise_list = [Fin 0, Fin 0, Fin 0]\<rparr>"

section \<open>Loading the metadata\<close>

text \<open>
  The environment answers \<^verbatim>\<open>std::getenv\<close>. A file system maps a path to the file
  an \<^verbatim>\<open>std::ifstream\<close> opens there, or to nothing when the stream is not open. An
  open file is represented by the outcomes of the successive extractions
  \<^verbatim>\<open>ifs >> x\<close> of a \<^verbatim>\<open>double\<close>, up to the end of the file: the value read, or
  nothing when the text at that place is not a number.
\<close>

type_synonym environment = "string \<Rightarrow> string option"

type_synonym file_system = "string \<Rightarrow> fp option list option"

text \<open>
  The loop \<^verbatim>\<open>for (double x; ifs >> x;) list.emplace_back(x)\<close>: it ends at the first
  extraction that fails, or at the end of the file.
\<close>

fun read_values :: "fp option list \<Rightarrow> fp list" where
  "read_values [] = []"
| "read_values (None # rest) = []"
| "read_values (Some x # rest) = x # read_values rest"

definition read_timestamp :: "environment \<Rightarrow> file_system \<Rightarrow> nat \<Rightarrow> error + fp list" where
  "read_timestamp env fs size_k =
     (case env ''TIMESTAMP_FILE'' of
        Some timestamp_file_name \<Rightarrow>
          (case fs timestamp_file_name of
             None \<Rightarrow> Inl (Abort (''Cannot open '' @ timestamp_file_name))
           | Some ifs \<Rightarrow>
               (let timestamp_list = read_values ifs
                in if length timestamp_list \<noteq> size_k
                   then Inl (Abort (''#of lines in '' @ timestamp_file_name @
                                    '' is not the same as #of fits files''))
                   else Inr timestamp_list))
      | None \<Rightarrow> Inr (map (\<lambda>i. fmul (double_of_size_t i) (Fin 1.0)) [0..<size_k]))"

definition read_exposuretime :: "environment \<Rightarrow> file_system \<Rightarrow> nat \<Rightarrow> error + fp list" where
  "read_exposuretime env fs size_k =
     (case env ''EXPOSURETIME_FILE'' of
        Some exposuretime_file_name \<Rightarrow>
          (case fs exposuretime_file_name of
             None \<Rightarrow> Inl (Abort (''Cannot open '' @ exposuretime_file_name))
           | Some ifs \<Rightarrow>
               (let exposuretime_list = read_values ifs
                in if length exposuretime_list \<noteq> size_k
                   then Inl (Abort (''#of lines in '' @ exposuretime_file_name @
                                    '' is not the same as #of fits files''))
                   else Inr exposuretime_list))
      | None \<Rightarrow> Inr (map (\<lambda>i. Fin 40) [0..<size_k]))"

definition read_psf :: "environment \<Rightarrow> file_system \<Rightarrow> nat \<Rightarrow> error + fp list" where
  "read_psf env fs size_k =
     (case env ''PSF_FILE'' of
        Some psf_file_name \<Rightarrow>
          (case fs psf_file_name of
             None \<Rightarrow> Inl (Abort (''Cannot open '' @ psf_file_name))
           | Some ifs \<Rightarrow>
               (let psf_list = read_values ifs
                in if length psf_list \<noteq> size_k
                   then Inl (Abort (''#of lines in '' @ psf_file_name @
                                    '' is not the same as #of fits files''))
                   else Inr psf_list))
      | None \<Rightarrow> Inr (map (\<lambda>i. Fin 1.0) [0..<size_k]))"

text \<open>
  The part of \<^verbatim>\<open>main\<close> that loads the metadata: the three readers are the argument
  expressions of the constructor call of line 333, and everything that follows (the
  construction of the cube, \<^verbatim>\<open>shoot_vector\<close> with its parallel region, the output)
  runs once all three have returned; it is the function \<open>continue\<close> of the three lists.
  C++ does not fix the order in which the arguments are evaluated; when more than one
  reader aborts, the order decides only whose message is printed, and the definition
  takes the arguments from left to right.
\<close>

definition main_metadata ::
  "environment \<Rightarrow> file_system \<Rightarrow> nat \<Rightarrow> (fp list \<Rightarrow> fp list \<Rightarrow> fp list \<Rightarrow> 'a) \<Rightarrow> error + 'a" where
  "main_metadata env fs size_k continue =
     (case read_timestamp env fs size_k of
        Inl e \<Rightarrow> Inl e
      | Inr timestamp_list \<Rightarrow>
          (case read_exposuretime env fs size_k of
             Inl e \<Rightarrow> Inl e
           | Inr exposuretime_list \<Rightarrow>
               (case read_psf env fs size_k of
                  Inl e \<Rightarrow> Inl e
                | Inr psf_list \<Rightarrow> Inr (continue timestamp_list exposuretime_list psf_list))))"

text \<open>
  An environment that names three files, and a file system in which the timestamp file
  holds two values, the exposure file holds three values and then text that is not a
  number, and the PSF file holds four values.
\<close>

definition example_env :: environment where
  "example_env = [''TIMESTAMP_FILE'' \<mapsto> ''t.txt'', ''EXPOSURETIME_FILE'' \<mapsto> ''e.txt'',
                  ''PSF_FILE'' \<mapsto> ''p.txt'']"

definition example_fs :: file_system where
  "example_fs = [''t.txt'' \<mapsto> [Some (Fin 0), Some (Fin 100)],
                 ''e.txt'' \<mapsto> [Some (Fin 40), Some (Fin 40), None, Some (Fin 40)],
                 ''p.txt'' \<mapsto> [Some (Fin 1), Some (Fin 1), Some (Fin 1), Some (Fin 1)]]"

section \<open>The shooting engine\<close>

text \<open>
  Modelled from the spec: \<^verbatim>\<open>vector_xy\<close> of \<^verbatim>\<open>vector.hpp\<close>, a header that is not among
  the sources. The spec gives a trajectory as (x_slope, x_intercept, y_slope,
  y_intercept), the order of the initialiser in \<^verbatim>\<open>shoot_vector\<close>.
\<close>

record vector_xy =
  x_slope :: fp
  x_intercept :: fp
  y_slope :: fp
  y_intercept :: fp

text \<open>An element of the result: the vector, SNR, sum, number of frames.\<close>

type_synonym result_row = "vector_xy \<times> fp \<times> fp \<times> int"

text \<open>
  The slope distribution objects: an object of class \<^verbatim>\<open>beta_distribution\<close> or of class
  \<^verbatim>\<open>custom_distribution\<close>, each with the state of that class.
\<close>

datatype ('b, 'c) slope_object = Beta_object 'b | Custom_object 'c

text \<open>
  What \<^verbatim>\<open>shoot_vector\<close> calls and the sources do not contain, as parameters: the
  random engine \<^verbatim>\<open>std::mt19937\<close> built from a seed; a draw of
  \<^verbatim>\<open>std::uniform_int_distribution<int>(a, b)\<close> from an engine; the constructors of the
  two slope distributions and their call operators, which return the two slopes (the
  spec: a 2-element real vector on each call); the range of
  \<^verbatim>\<open>cube_iterator_with_vector\<close> from begin to end, as the list of its
  \<^verbatim>\<open>snr_info()\<close> tuples; the time \<^verbatim>\<open>utility::elapsed_time_sec(start)\<close> measures for
  draw i.
\<close>

record ('r, 'b, 'c) library =
  mt19937 :: "nat \<Rightarrow> 'r"
  uniform_int_distribution :: "int \<Rightarrow> int \<Rightarrow> 'r \<Rightarrow> int \<times> 'r"
  beta_distribution :: "nat \<Rightarrow> nat \<Rightarrow> 'b"
  beta_call :: "'b \<Rightarrow> (fp \<times> fp) \<times> 'b"
  custom_distribution :: "string \<Rightarrow> 'c"
  custom_call :: "'c \<Rightarrow> (fp \<times> fp) \<times> 'c"
  cube_iterator_with_vector :: "cube \<Rightarrow> vector_xy \<Rightarrow> snr_info list"
  elapsed_time_sec :: "nat \<Rightarrow> fp"

text \<open>
  Lines 224 to 227. The block declares \<^verbatim>\<open>slope_distribution\<close>, a
  \<^verbatim>\<open>beta_distribution(3, 2)\<close>. The statement under the \<^verbatim>\<open>if\<close> is a declaration: it
  declares a second object of the same name, a \<^verbatim>\<open>custom_distribution\<close>, in the scope
  of the \<^verbatim>\<open>if\<close> statement, and that object is destroyed where the statement ends.
  The result is the object the name denotes after the \<^verbatim>\<open>if\<close> statement, and the
  object that was constructed inside of it, if any.
\<close>

definition slope_distribution_declared ::
  "('r, 'b, 'c) library \<Rightarrow> string option \<Rightarrow> ('b, 'c) slope_object \<times> ('b, 'c) slope_object option" where
  "slope_distribution_declared L slope_filename =
     (let slope_distribution = Beta_object (beta_distribution L 3 2)
      in case slope_filename of
           None \<Rightarrow> (slope_distribution, None)
         | Some name \<Rightarrow>
             (let inner_slope_distribution = Custom_object (custom_distribution L name)
              in (slope_distribution, Some inner_slope_distribution)))"

text \<open>The call \<^verbatim>\<open>slope_distribution()\<close> on an object of either class.\<close>

fun call_slope_distribution ::
  "('r, 'b, 'c) library \<Rightarrow> ('b, 'c) slope_object \<Rightarrow> (fp \<times> fp) \<times> ('b, 'c) slope_object" where
  "call_slope_distribution L (Beta_object b) =
     (case beta_call L b of (slopes, b') \<Rightarrow> (slopes, Beta_object b'))"
| "call_slope_distribution L (Custom_object c) =
     (case custom_call L c of (slopes, c') \<Rightarrow> (slopes, Custom_object c'))"

text \<open>
  The upper bound of a start distribution: \<^verbatim>\<open>size - 1\<close> is computed in \<^verbatim>\<open>size_t\<close>
  (modulo 2^64) and converted to the \<^verbatim>\<open>int\<close> parameter of the distribution (the
  low 32 bits, read as a signed value).
\<close>

definition int_of_size_t :: "nat \<Rightarrow> int" where
  "int_of_size_t n =
     (let m = int n mod 2 ^ 32 in if m < 2 ^ 31 then m else m - 2 ^ 32)"

definition start_dist_bound :: "nat \<Rightarrow> int" where
  "start_dist_bound n = int_of_size_t ((n + 2 ^ 64 - 1) mod 2 ^ 64)"

text \<open>
  The state a thread of the parallel region owns: its random engine and its slope
  distribution (lines 215 to 227), and, between the read and the write of the
  statement \<^verbatim>\<open>total_execution_time += utility::elapsed_time_sec(start)\<close>, the value it
  has read and the time it adds.
\<close>

record ('r, 'b, 'c) worker =
  rnd_engine :: 'r
  slope_distribution :: "('b, 'c) slope_object"
  pending :: "(fp \<times> fp) option"

definition worker_init ::
  "('r, 'b, 'c) library \<Rightarrow> string option \<Rightarrow> nat \<Rightarrow> ('r, 'b, 'c) worker" where
  "worker_init L slope_filename thread_num =
     \<lparr>rnd_engine = mt19937 L (123 + thread_num),
      slope_distribution = fst (slope_distribution_declared L slope_filename),
      pending = None\<rparr>"

text \<open>Lines 236 to 251 of the loop body: one draw, its result and the state of the thread after it.\<close>

definition draw ::
  "('r, 'b, 'c) library \<Rightarrow> cube \<Rightarrow> ('r, 'b, 'c) worker \<Rightarrow> result_row \<times> ('r, 'b, 'c) worker" where
  "draw L c w =
     (case call_slope_distribution L (slope_distribution w) of (slopes, d) \<Rightarrow>
      case uniform_int_distribution L 0 (start_dist_bound (m_size_x c)) (rnd_engine w) of (xi, e1) \<Rightarrow>
      case uniform_int_distribution L 0 (start_dist_bound (m_size_y c)) e1 of (yi, e2) \<Rightarrow>
        let current_vector = \<lparr>x_slope = fst slopes, x_intercept = double_of_int xi,
                                y_slope = snd slopes, y_intercept = double_of_int yi\<rparr>;
            v_info = vector_info (cube_iterator_with_vector L c current_vector)
        in ((current_vector, fst v_info, fst (snd v_info), snd (snd v_info)),
            w\<lparr>rnd_engine := e2, slope_distribution := d\<rparr>))"

text \<open>
  The variables of \<^verbatim>\<open>shoot_vector\<close> that the threads share, \<^verbatim>\<open>result\<close> and
  \<^verbatim>\<open>total_execution_time\<close> (both declared before the parallel region), and the state
  of every thread, by thread number.
\<close>

record ('r, 'b, 'c) shoot_state =
  result :: "result_row list"
  total_execution_time :: fp
  workers :: "nat \<Rightarrow> ('r, 'b, 'c) worker"

text \<open>
  A run of the parallel loop is the sequence of what its threads do, in the order in
  which it takes effect. \<open>Draw t i\<close>: thread t runs the body for index i up to the
  assignment to \<^verbatim>\<open>result[i]\<close>, measures the time and reads \<^verbatim>\<open>total_execution_time\<close>.
  \<open>Commit t\<close>: thread t writes the sum back. The statement carries no \<^verbatim>\<open>atomic\<close> or
  \<^verbatim>\<open>critical\<close> directive and the loop no \<^verbatim>\<open>reduction\<close> clause, so the steps of other
  threads can take effect between the two. The loop draws indices below
  \<^verbatim>\<open>num_random_vector\<close> only; the list update of the definition leaves \<open>result\<close>
  as it is for any other index.
\<close>

datatype event = Draw nat nat | Commit nat

fun shoot_step ::
  "('r, 'b, 'c) library \<Rightarrow> cube \<Rightarrow> ('r, 'b, 'c) shoot_state \<Rightarrow> event \<Rightarrow> ('r, 'b, 'c) shoot_state" where
  "shoot_step L c s (Draw t i) =
     (case draw L c (workers s t) of (row, w) \<Rightarrow>
        s\<lparr>result := (result s)[i := row],
          workers := (workers s)
            (t := w\<lparr>pending := Some (total_execution_time s, elapsed_time_sec L i)\<rparr>)\<rparr>)"
| "shoot_step L c s (Commit t) =
     (case pending (workers s t) of
        None \<Rightarrow> s
      | Some (loaded, dt) \<Rightarrow>
          s\<lparr>total_execution_time := fadd loaded dt,
            workers := (workers s)(t := (workers s t)\<lparr>pending := None\<rparr>)\<rparr>)"

text \<open>A value-initialised element of \<^verbatim>\<open>result\<close>.\<close>

definition default_row :: result_row where
  "default_row = (\<lparr>x_slope = Fin 0, x_intercept = Fin 0, y_slope = Fin 0, y_intercept = Fin 0\<rparr>,
                  Fin 0, Fin 0, 0)"

definition shoot_init ::
  "('r, 'b, 'c) library \<Rightarrow> nat \<Rightarrow> string option \<Rightarrow> ('r, 'b, 'c) shoot_state" where
  "shoot_init L num_random_vector slope_filename =
     \<lparr>result = replicate num_random_vector default_row,
      total_execution_time = Fin 0,
      workers = worker_init L slope_filename\<rparr>"

definition shoot_vector ::
  "('r, 'b, 'c) library \<Rightarrow> cube \<Rightarrow> nat \<Rightarrow> string option \<Rightarrow> event list \<Rightarrow> fp \<times> result_row list" where
  "shoot_vector L c num_random_vector slope_filename events =
     (let s = foldl (shoot_step L c) (shoot_init L num_random_vector slope_filename) events
      in (total_execution_time s, result s))"

text \<open>
  The runs of the loop \<^verbatim>\<open>for (int i = 0; i < num_random_vector; ++i)\<close> under
  \<^verbatim>\<open>omp for\<close>, whatever the number of threads and the chunks they receive: every
  index below \<^verbatim>\<open>num_random_vector\<close> is drawn once, and a thread completes the
  statement of line 252 before its next draw and before the loop ends. The run without
  OpenMP is the one of thread 0 alone, in the order of the indices.
\<close>

fun draw_indices :: "event list \<Rightarrow> nat list" where
  "draw_indices [] = []"
| "draw_indices (Draw t i # es) = i # draw_indices es"
| "draw_indices (Commit t # es) = draw_indices es"

text \<open>\<open>alternates P events\<close>: P lists the threads that have read and not yet written.\<close>

fun alternates :: "nat list \<Rightarrow> event list \<Rightarrow> bool" where
  "alternates P [] = (P = [])"
| "alternates P (Draw t i # es) = (t \<notin> set P \<and> alternates (t # P) es)"
| "alternates P (Commit t # es) = (t \<in> set P \<and> alternates (removeAll t P) es)"

definition omp_run :: "nat \<Rightarrow> event list \<Rightarrow> bool" where
  "omp_run num_random_vector events =
     (sort (draw_indices events) = [0..<num_random_vector] \<and> alternates [] events)"

fun sequential_run :: "nat \<Rightarrow> event list" where
  "sequential_run 0 = []"
| "sequential_run (Suc n) = sequential_run n @ [Draw 0 n, Commit 0]"

section \<open>The output\<close>











text \<open>A double that is integer-valued and lies in {0, ..., n - 1}.\<close>

definition integer_below :: "nat \<Rightarrow> fp \<Rightarrow> bool" where
  "integer_below n v =
     (case v of Fin r \<Rightarrow> of_int \<lfloor>r\<rfloor> = r \<and> 0 \<le> r \<and> r < real n | _ \<Rightarrow> False)"

text \<open>
  A library for the examples: engines and distribution states are counters, a start
  distribution returns its lower bound plus the engine state modulo the width of its
  range, the beta distribution returns (1, 2) and the custom one (7, 7), the iterator
  range is one frame of value 10, and every draw is measured as one second.
\<close>

definition example_library :: "(nat, nat, nat) library" where
  "example_library =
     \<lparr>mt19937 = (\<lambda>seed. seed),
      uniform_int_distribution = (\<lambda>a b r. (a + int r mod (b - a + 1), Suc r)),
      beta_distribution = (\<lambda>a b. 0),
      beta_call = (\<lambda>b. ((Fin 1, Fin 2), Suc b)),
      custom_distribution = (\<lambda>name. 0),
      custom_call = (\<lambda>c. ((Fin 7, Fin 7), Suc c)),
      cube_iterator_with_vector = (\<lambda>c v. [(Fin 10, 1, Fin 40)]),
      elapsed_time_sec = (\<lambda>i. Fin 1)\<rparr>"

section \<open>Properties of the arithmetic\<close>

text \<open>The equations that evaluate a rounding on a numeral.\<close>

lemmas round_eval = round_double_def round_float_def round_to_def normalise_def round_even_def
  pow2_def scale_down.simps scale_up.simps Let_def

text \<open>The equations that evaluate an operation on given operands.\<close>

lemmas fp_eval = fadd_def fmul_def fdiv_def fadd_float_def fdiv_float_def fsqrt_def fsub_def
  add_rounded_def mul_rounded_def div_rounded_def is_zero_def is_inf_def zero_signed_def
  inf_signed_def

lemma round_double_zero: "round_double 0 = Fin 0"
  by (simp add: round_double_def round_to_def)

lemma round_float_zero: "round_float 0 = Fin 0"
  by (simp add: round_float_def round_to_def)

text \<open>
  Rounding at work: 16777217 is not a float, and the float sum 16777216 + 1 is 16777216;
  the double nearest to 0.417 is 7512004178453987 / 2^54.
\<close>

lemma fadd_float_rounds: "fadd_float (Fin 16777216) (Fin 1) = Fin 16777216"
  by (simp add: fp_eval round_eval)

lemma dark_noise_value: "dark_noise = Fin (7512004178453987 / 18014398509481984)"
  by (simp add: dark_noise_def round_eval)

text \<open>
  The two square roots of the example below: the double nearest to the square root of
  120, and the one nearest to the square root of the sum under the second root.
\<close>

lemma round_double_sqrt_120:
  "round_double (sqrt 120) = Fin (6166807764706703 / 562949953421312)"
proof -
  define s where "s = sqrt 120"
  have lo: "(6166807764706703 - 1 / 2) / 562949953421312 < s"
    unfolding s_def by (rule real_less_rsqrt) (simp add: power2_eq_square)
  have hi: "s < 6166807764706703 / 562949953421312"
    unfolding s_def by (rule real_less_lsqrt) (simp_all add: power2_eq_square)
  have fl: "\<lfloor>562949953421312 * s\<rfloor> = 6166807764706702"
    using lo hi by (intro floor_unique) simp_all
  have "round_double s = Fin (6166807764706703 / 562949953421312)"
    using lo hi fl
    by (simp add: round_eval)
  then show ?thesis by (simp add: s_def)
qed

lemma round_double_sqrt_den:
  "round_double (sqrt (6322772368297033 / 140737488355328)) =
     Fin (1886638388835119 / 281474976710656)"
proof -
  define s where "s = sqrt (6322772368297033 / 140737488355328)"
  have lo: "(7546553555340476 - 1 / 2) / 1125899906842624 < s"
    unfolding s_def by (rule real_less_rsqrt) (simp add: power2_eq_square)
  have hi: "s < 7546553555340476 / 1125899906842624"
    unfolding s_def by (rule real_less_lsqrt) (simp_all add: power2_eq_square)
  have fl: "\<lfloor>1125899906842624 * s\<rfloor> = 7546553555340475"
    using lo hi by (intro floor_unique) simp_all
  have "round_double s = Fin (1886638388835119 / 281474976710656)"
    using lo hi fl by (simp add: round_eval)
  then show ?thesis by (simp add: s_def)
qed

section \<open>Properties of the statistics accumulator\<close>

lemma vector_info_loop_all_nan:
  "(\<forall>s \<in> set steps. is_nan (fst s)) \<Longrightarrow> vector_info_loop a steps = a"
  by (induction steps) simp_all

lemma vector_info_loop_data_steps:
  "vector_info_loop a steps = foldl accumulate a (data_steps steps)"
  by (induction steps arbitrary: a) (simp_all add: data_steps_def)

lemma foldl_accumulate_signal:
  "total_signal (foldl accumulate a ds) =
     foldl fadd_float (total_signal a) (map (\<lambda>(v, n, e). v) ds)"
  by (induction ds arbitrary: a) (simp_all add: accumulate_def split: prod.splits)

lemma foldl_accumulate_frames:
  "frame_num (foldl accumulate a ds) = frame_num a + of_nat (length ds)"
  by (induction ds arbitrary: a) (simp_all add: accumulate_def split: prod.splits)

lemma foldl_accumulate_B:
  "total_B (foldl accumulate a ds) =
     foldl fadd (total_B a) (map (\<lambda>(v, n, e). fmul (fdiv_float v (Fin 3)) (double_of_int n)) ds)"
  by (induction ds arbitrary: a) (simp_all add: accumulate_def split: prod.splits)

lemma fpow2_readout_noise: "fpow2 readout_noise = Fin 49"
  by (simp add: fpow2_def readout_noise_def fp_eval round_eval)

lemma foldl_accumulate_R:
  "total_R (foldl accumulate a ds) =
     foldl fadd (total_R a) (map (\<lambda>(v, n, e). fdiv (fmul (double_of_int n) (Fin 49)) e) ds)"
  by (induction ds arbitrary: a)
     (simp_all add: accumulate_def fpow2_readout_noise split: prod.splits)

lemma foldl_accumulate_D:
  "total_D (foldl accumulate a ds) =
     foldl fadd (total_D a) (map (\<lambda>(v, n, e). fmul (round_double 0.417) (double_of_int n)) ds)"
  by (induction ds arbitrary: a) (simp_all add: accumulate_def dark_noise_def split: prod.splits)

lemma foldl_accumulate_time:
  "total_time (foldl accumulate a ds) = foldl fadd (total_time a) (map (\<lambda>(v, n, e). e) ds)"
  by (induction ds arbitrary: a) (simp_all add: accumulate_def split: prod.splits)

lemma sint_of_nat_32:
  assumes "n < 2 ^ 31"
  shows "sint (of_nat n :: 32 word) = int n"
proof -
  have "sint (of_nat n :: 32 word) = signed_take_bit 31 (int n)"
    by (simp add: signed_of_nat)
  also have "\<dots> = int n"
    using assms by (intro signed_take_bit_int_eq_self) simp_all
  finally show ?thesis .
qed

lemma vector_info_nonempty:
  assumes "steps \<noteq> []" and "length (data_steps steps) < 2 ^ 31"
  shows "vector_info steps = spec_vector_info steps"
proof -
  let ?a = "vector_info_loop accum_init steps"
  have a: "?a = foldl accumulate accum_init (data_steps steps)"
    by (rule vector_info_loop_data_steps)
  have s: "total_signal ?a = spec_signal (data_steps steps)"
    unfolding a foldl_accumulate_signal by (simp add: spec_signal_def fsum_float_def accum_init_def)
  have b: "total_B ?a = spec_B (data_steps steps)"
    unfolding a foldl_accumulate_B by (simp add: spec_B_def fsum_def accum_init_def)
  have r: "total_R ?a = spec_R (data_steps steps)"
    unfolding a foldl_accumulate_R by (simp add: spec_R_def fsum_def accum_init_def)
  have d: "total_D ?a = spec_D (data_steps steps)"
    unfolding a foldl_accumulate_D by (simp add: spec_D_def fsum_def accum_init_def)
  have t: "total_time ?a = spec_exposure (data_steps steps)"
    unfolding a foldl_accumulate_time by (simp add: spec_exposure_def fsum_def accum_init_def)
  have "frame_num ?a = of_nat (length (data_steps steps))"
    unfolding a foldl_accumulate_frames by (simp add: accum_init_def)
  then have f: "sint (frame_num ?a) = int (length (data_steps steps))"
    using assms(2) by (simp add: sint_of_nat_32)
  show ?thesis
    using assms(1)
    by (simp add: vector_info_def spec_vector_info_def snr_of_def Let_def s b r d t f)
qed

text \<open>
  Claim C2, as amended. When the range is empty, \<^verbatim>\<open>vector_info\<close> returns
  (0, 0, 0) from the guard \<^verbatim>\<open>iterator_begin == iterator_end\<close>, before any division.
  When the range is not empty and the value of every step is NaN, the guard does not
  apply: the sum and the number of frames are 0 and the SNR is the quotient
  0 * sqrt 0 / sqrt 0, which is NaN.
\<close>

theorem vector_info_no_data:
  "vector_info [] = (Fin 0, Fin 0, 0) \<and>
   (steps \<noteq> [] \<longrightarrow> (\<forall>s \<in> set steps. is_nan (fst s)) \<longrightarrow>
      vector_info steps = (NaN, Fin 0, 0))"
proof (intro conjI impI)
  show "vector_info [] = (Fin 0, Fin 0, 0)"
    by (simp add: vector_info_def)
next
  assume ne: "steps \<noteq> []" and nan: "\<forall>s \<in> set steps. is_nan (fst s)"
  have "vector_info_loop accum_init steps = accum_init"
    using nan by (rule vector_info_loop_all_nan)
  then show "vector_info steps = (NaN, Fin 0, 0)"
    using ne
    by (simp add: vector_info_def accum_init_def snr_of_def fp_eval round_double_zero)
qed

theorem vector_info_no_data_witness:
  "[(NaN, 1, Fin 40), (NaN, 1, Fin 40)] \<noteq> [] \<and>
   list_all (\<lambda>s. is_nan (fst s)) [(NaN, 1, Fin 40), (NaN, 1, Fin 40)] \<and>
   vector_info [(NaN, 1, Fin 40), (NaN, 1, Fin 40)] = (NaN, Fin 0, 0)"
  using vector_info_no_data [of "[(NaN, 1, Fin 40), (NaN, 1, Fin 40)]"]
  by (simp add: is_nan_def)

text \<open>
  Claim C2 as stated fails: a range of one step whose value is NaN has no data step,
  and the result is not (0, 0, 0).
\<close>

theorem vector_info_no_data_counterexample:
  "vector_info [(NaN, 1, Fin 40)] = (NaN, Fin 0, 0) \<and>
   vector_info [(NaN, 1, Fin 40)] \<noteq> (Fin 0, Fin 0, 0)"
  by (simp add: vector_info_def is_nan_def accum_init_def snr_of_def fp_eval
      round_double_zero)

text \<open>The example of three data steps of value 10 with one pixel and exposure 40.\<close>

lemma example_operations:
  "fdiv_float (Fin 10) (Fin 3) = Fin (13981013 / 4194304)"
  "fmul (Fin (13981013 / 4194304)) (double_of_int 1) = Fin (13981013 / 4194304)"
  "fdiv (fmul (double_of_int 1) (Fin 49)) (Fin 40) = Fin (2758454771764429 / 2251799813685248)"
  "fmul dark_noise (double_of_int 1) = Fin (7512004178453987 / 18014398509481984)"
  "fadd_float (Fin 0) (Fin 10) = Fin 10"
  "fadd_float (Fin 10) (Fin 10) = Fin 20"
  "fadd_float (Fin 20) (Fin 10) = Fin 30"
  "fadd (Fin 0) (Fin (13981013 / 4194304)) = Fin (13981013 / 4194304)"
  "fadd (Fin (13981013 / 4194304)) (Fin (13981013 / 4194304)) = Fin (13981013 / 2097152)"
  "fadd (Fin (13981013 / 2097152)) (Fin (13981013 / 4194304)) = Fin (41943039 / 4194304)"
  "fadd (Fin 0) (Fin (2758454771764429 / 2251799813685248)) = Fin (2758454771764429 / 2251799813685248)"
  "fadd (Fin (2758454771764429 / 2251799813685248)) (Fin (2758454771764429 / 2251799813685248)) = Fin (2758454771764429 / 1125899906842624)"
  "fadd (Fin (2758454771764429 / 1125899906842624)) (Fin (2758454771764429 / 2251799813685248)) = Fin (8275364315293287 / 2251799813685248)"
  "fadd (Fin 0) (Fin (7512004178453987 / 18014398509481984)) = Fin (7512004178453987 / 18014398509481984)"
  "fadd (Fin (7512004178453987 / 18014398509481984)) (Fin (7512004178453987 / 18014398509481984)) = Fin (7512004178453987 / 9007199254740992)"
  "fadd (Fin (7512004178453987 / 9007199254740992)) (Fin (7512004178453987 / 18014398509481984)) = Fin (2817001566920245 / 2251799813685248)"
  "fadd (Fin 0) (Fin 40) = Fin 40"
  "fadd (Fin 40) (Fin 40) = Fin 80"
  "fadd (Fin 80) (Fin 40) = Fin 120"
  by (simp_all add: dark_noise_def double_of_int_def fp_eval round_eval)

lemma example_loop:
  "vector_info_loop accum_init [(Fin 10, 1, Fin 40), (Fin 10, 1, Fin 40), (Fin 10, 1, Fin 40)] =
     \<lparr>total_signal = Fin 30, total_exposure = Fin 0,
      total_B = Fin (41943039 / 4194304),
      total_R = Fin (8275364315293287 / 2251799813685248),
      total_D = Fin (2817001566920245 / 2251799813685248),
      total_time = Fin 120, frame_num = 3\<rparr>"
  by (simp add: accum_init_def accumulate_def is_nan_def fpow2_readout_noise
      example_operations)

lemma example_snr:
  "snr_of \<lparr>total_signal = Fin 30, total_exposure = Fin 0,
      total_B = Fin (41943039 / 4194304),
      total_R = Fin (8275364315293287 / 2251799813685248),
      total_D = Fin (2817001566920245 / 2251799813685248),
      total_time = Fin 120, frame_num = 3\<rparr> = Fin (862547084848521 / 17592186044416)"
proof -
  have den: "fadd (fadd (fadd (Fin 30) (Fin (41943039 / 4194304)))
               (Fin (2817001566920245 / 2251799813685248)))
               (Fin (8275364315293287 / 2251799813685248)) =
             Fin (6322772368297033 / 140737488355328)"
    by (simp add: fp_eval round_eval)
  have s1: "fsqrt (Fin 120) = Fin (6166807764706703 / 562949953421312)"
    by (simp add: fsqrt_def is_zero_def round_double_sqrt_120)
  have s2: "fsqrt (Fin (6322772368297033 / 140737488355328)) =
            Fin (1886638388835119 / 281474976710656)"
    by (simp add: fsqrt_def is_zero_def round_double_sqrt_den)
  have num: "fmul (Fin 30) (Fin (6166807764706703 / 562949953421312)) =
             Fin (2890691139706267 / 8796093022208)"
    by (simp add: fp_eval round_eval)
  have q: "fdiv (Fin (2890691139706267 / 8796093022208))
             (Fin (1886638388835119 / 281474976710656)) =
           Fin (862547084848521 / 17592186044416)"
    by (simp add: fp_eval round_eval)
  show ?thesis
    by (simp only: snr_of_def accum.simps den s1 s2 num q)
qed

lemma closed_form_close:
  "\<bar>862547084848521 / 17592186044416 -
     30 * sqrt 120 / sqrt (30 + 3 * (10 / 3) + 3 * 0.417 + 3 * (49 / 40))\<bar> < (1 / 10 ^ 6 :: real)"
proof -
  define y :: real where "y = 22463 / 500"
  define c :: real where "c = sqrt (900 * 120 / y)"
  have y: "30 + 3 * (10 / 3) + 3 * 0.417 + 3 * (49 / 40) = y"
    by (simp add: y_def)
  have s900: "sqrt 900 = 30"
    by (rule real_sqrt_unique) simp_all
  have "c = sqrt 900 * sqrt 120 / sqrt y"
    unfolding c_def by (simp only: real_sqrt_mult real_sqrt_divide)
  then have c: "30 * sqrt 120 / sqrt y = c"
    by (simp only: s900)
  have lo: "862547084848521 / 17592186044416 - 1 / 10 ^ 6 < c"
    unfolding c_def y_def by (rule real_less_rsqrt) (simp add: power2_eq_square)
  have hi: "c < 862547084848521 / 17592186044416 + 1 / 10 ^ 6"
    unfolding c_def y_def by (rule real_less_lsqrt) (simp_all add: power2_eq_square)
  from lo hi have "862547084848521 / 17592186044416 - c < 1 / 10 ^ 6 \<and>
      - (862547084848521 / 17592186044416 - c) < 1 / 10 ^ 6"
    by linarith
  then show ?thesis
    unfolding y c by (simp only: abs_less_iff)
qed

text \<open>
  Claim C3. On a range with at least one data step (and fewer than 2^31 of them, the
  range of the \<^verbatim>\<open>int\<close> counter), \<^verbatim>\<open>vector_info\<close> skips the steps whose value is NaN
  and returns what the accumulation rule gives over the data steps with value v, pixel
  count n and exposure e, every operation being the floating-point operation of the
  program: the sum of v, the number of data steps, and
  total_signal * sqrt total_exposure / sqrt (total_signal + B + D + R), where B sums
  (v/3) * n, R sums n * 49 / e (49 the square of the readout noise 7), D sums 0.417 * n
  and total_exposure sums e.
\<close>

theorem vector_info_accumulates:
  assumes "\<exists>s \<in> set steps. \<not> is_nan (fst s)" and "length (data_steps steps) < 2 ^ 31"
  shows "vector_info steps = spec_vector_info steps"
proof -
  from assms(1) have "steps \<noteq> []" by auto
  then show ?thesis using assms(2) by (rule vector_info_nonempty)
qed

text \<open>
  Three data steps of value 10 with one pixel and exposure 40: the sum is 30 and three
  frames are hit. The SNR is the double 862547084848521 / 2^44, about
  49.03012523121339, the value of the formula in the arithmetic of the program with
  per-step B the float nearest to 10/3, D the double nearest to 0.417 and R the double
  nearest to 49/40; it is within 10^-6 of the closed form in real numbers.
\<close>

theorem vector_info_accumulates_witness:
  "(\<exists>s \<in> set [(Fin 10, 1 :: int, Fin 40), (Fin 10, 1, Fin 40), (Fin 10, 1, Fin 40)].
      \<not> is_nan (fst s)) \<and>
   length (data_steps [(Fin 10, 1, Fin 40), (Fin 10, 1, Fin 40), (Fin 10, 1, Fin 40)]) < 2 ^ 31 \<and>
   vector_info [(Fin 10, 1, Fin 40), (Fin 10, 1, Fin 40), (Fin 10, 1, Fin 40)] =
     (Fin (862547084848521 / 17592186044416), Fin 30, 3) \<and>
   spec_vector_info [(Fin 10, 1, Fin 40), (Fin 10, 1, Fin 40), (Fin 10, 1, Fin 40)] =
     (Fin (862547084848521 / 17592186044416), Fin 30, 3) \<and>
   \<bar>862547084848521 / 17592186044416 -
     30 * sqrt 120 / sqrt (30 + 3 * (10 / 3) + 3 * 0.417 + 3 * (49 / 40))\<bar> < (1 / 10 ^ 6 :: real)"
proof -
  let ?ex = "[(Fin 10, 1, Fin 40), (Fin 10, 1, Fin 40), (Fin 10, 1, Fin 40)] :: snr_info list"
  have h1: "\<exists>s \<in> set ?ex. \<not> is_nan (fst s)"
    by (simp add: is_nan_def)
  have h2: "length (data_steps ?ex) < 2 ^ 31"
    by (simp add: data_steps_def is_nan_def)
  have v: "vector_info ?ex = (Fin (862547084848521 / 17592186044416), Fin 30, 3)"
    unfolding vector_info_def example_loop Let_def example_snr by simp
  from vector_info_accumulates [OF h1 h2] v
  have sp: "spec_vector_info ?ex = (Fin (862547084848521 / 17592186044416), Fin 30, 3)"
    by simp
  show ?thesis
    by (intro conjI) (rule h1 h2 v sp closed_form_close)+
qed

section \<open>Properties of the cube\<close>

lemma cube_ctor_Inr:
  assumes "cube_ctor sx sy sk store ts ex ps rd ns = Inr c"
  shows "c = \<lparr>m_size_x = sx, m_size_y = sy, m_size_k = sk, u_cube = store,
               m_timestamp_list = ts, m_exposuretime_list = ex, m_psf_list = ps,
               m_ra_dec_list = rd, m_noise_list = ns\<rparr> \<and>
         sk \<le> length ts \<and> sk \<le> length ex \<and> sk \<le> length ps \<and> sk \<le> length rd \<and>
         sk \<le> length ns"
  using assms by (simp add: cube_ctor_def Let_def split: if_splits)

text \<open>
  Claim C5. A cube that the constructor with the metadata lists has returned (all five
  assertions held) answers \<^verbatim>\<open>timestamp(k)\<close>, \<^verbatim>\<open>exposuretime(k)\<close>, \<^verbatim>\<open>psf(k)\<close> and
  \<^verbatim>\<open>noise(k)\<close> for every k below \<^verbatim>\<open>size_k\<close> with the k-th element of the list it
  was given: the assertion of the accessor holds.
\<close>

theorem accessors_below_size_k:
  assumes "cube_ctor sx sy sk store ts ex ps rd ns = Inr c" and "k < sk"
  shows "timestamp c k = Inr (ts ! k) \<and> exposuretime c k = Inr (ex ! k) \<and>
         psf c k = Inr (ps ! k) \<and> noise c k = Inr (ns ! k)"
proof -
  note c = cube_ctor_Inr [OF assms(1)]
  from c assms(2) have "k < length ts" "k < length ex" "k < length ps" "k < length ns"
    by simp_all
  with c show ?thesis
    by (simp add: timestamp_def exposuretime_def psf_def noise_def)
qed

theorem accessors_below_size_k_witness:
  "cube_ctor 4 4 3 (\<lambda>i. (i mod 4, (i div 4) mod 4, i div 16)) [0, 100, 200]
     [Fin 40, Fin 40, Fin 40] [Fin 1, Fin 1, Fin 1] [[], [], []] [Fin 0, Fin 0, Fin 0]
     = Inr example_cube \<and> (2::nat) < 3 \<and>
   timestamp example_cube 2 = Inr 200 \<and> exposuretime example_cube 2 = Inr (Fin 40) \<and>
   psf example_cube 2 = Inr (Fin 1) \<and> noise example_cube 2 = Inr (Fin 0)"
proof -
  have ctor: "cube_ctor 4 4 3 (\<lambda>i. (i mod 4, (i div 4) mod 4, i div 16)) [0, 100, 200]
     [Fin 40, Fin 40, Fin 40] [Fin 1, Fin 1, Fin 1] [[], [], []] [Fin 0, Fin 0, Fin 0]
     = Inr example_cube"
    by (simp add: cube_ctor_def example_cube_def)
  have k: "(2::nat) < 3" by simp
  from accessors_below_size_k [OF ctor k] ctor show ?thesis by simp
qed

text \<open>A timestamp difference of 2^53 + 1 converts to the double 2^53.\<close>

lemma double_of_ulong_rounds: "double_of_ulong 9007199254740993 = Fin 9007199254740992"
  by (simp add: double_of_ulong_def round_eval)

lemma size_t_of_double_in_range:
  assumes "integer_of d = Some v" and "0 \<le> v" and "v < 2 ^ 64"
  shows "size_t_of_double cast d = nat v"
proof (cases d)
  case (Fin r)
  with assms(1) have r: "r = of_int v"
    by (auto simp: integer_of_def split: if_splits)
  with assms(2,3) Fin show ?thesis
    by (simp add: size_t_of_double_def Let_def)
next
  case NZero
  with assms(1) show ?thesis
    by (simp add: integer_of_def size_t_of_double_def)
qed (use assms(1) in \<open>simp_all add: integer_of_def\<close>)


lemma get_rnd_coord_value:
  assumes "u_cube c index = (x0, y0, k)" and "k < length (m_timestamp_list c)"
    and "dt = double_of_ulong (m_timestamp_list c ! k - m_timestamp_list c ! 0)"
  shows "get_rnd_coord cast c index sx sy =
           Inr (size_t_of_double cast (fround (fsub (double_of_size_t x0) (fmul sx dt))),
                size_t_of_double cast (fround (fsub (double_of_size_t y0) (fmul sy dt))), 0)"
proof -
  have k0: "0 < length (m_timestamp_list c)"
    using assms(2) by (cases "m_timestamp_list c") simp_all
  show ?thesis
    using assms k0 by (simp add: get_rnd_coord_def timestamp_def Let_def)
qed

text \<open>
  Claim C6, as amended. When the resolved frame k has a timestamp, the timestamp of
  frame 0 is not above it, and both back-projections, computed in \<^verbatim>\<open>double\<close> as the
  specification words them, are integers in the range of \<^verbatim>\<open>size_t\<close> (-0.0 counting
  as 0; so neither is NaN or an infinity), \<^verbatim>\<open>get_rnd_coord\<close> returns them with frame
  index 0, whatever the machine does for operands out of that range.
\<close>

theorem get_rnd_coord_back_projects:
  assumes "u_cube c index = (x0, y0, k)"
    and "k < length (m_timestamp_list c)"
    and "m_timestamp_list c ! 0 \<le> m_timestamp_list c ! k"
    and "back_projection c index sx sy = (bx, by, f)"
    and "integer_of bx = Some vx" "integer_of by = Some vy"
    and "0 \<le> vx" "vx < 2 ^ 64" "0 \<le> vy" "vy < 2 ^ 64"
  shows "get_rnd_coord cast c index sx sy = Inr (nat vx, nat vy, 0) \<and> f = 0"
proof -
  let ?tk = "m_timestamp_list c ! k" and ?t0 = "m_timestamp_list c ! 0"
  define dt where "dt = double_of_ulong (?tk - ?t0)"
  have le: "unat ?t0 \<le> unat ?tk"
    using assms(3) by (simp add: word_le_nat_alt)
  have "unat (?tk - ?t0) = unat ?tk - unat ?t0"
    using assms(3) by (rule unat_sub)
  then have "real (unat (?tk - ?t0)) = real (unat ?tk) - real (unat ?t0)"
    using le by simp
  then have dt': "round_double (real (unat ?tk) - real (unat ?t0)) = dt"
    by (simp only: dt_def double_of_ulong_def)
  have bp: "back_projection c index sx sy =
      (fround (fsub (double_of_size_t x0) (fmul sx dt)),
       fround (fsub (double_of_size_t y0) (fmul sy dt)), 0)"
    using dt' by (simp add: back_projection_def assms(1) double_of_size_t_def)
  from bp assms(4) have x: "fround (fsub (double_of_size_t x0) (fmul sx dt)) = bx"
    and y: "fround (fsub (double_of_size_t y0) (fmul sy dt)) = by"
    and f: "f = 0"
    by simp_all
  have cx: "size_t_of_double cast bx = nat vx"
    using assms(5,7,8) by (rule size_t_of_double_in_range)
  have cy: "size_t_of_double cast by = nat vy"
    using assms(6,9,10) by (rule size_t_of_double_in_range)
  from get_rnd_coord_value [OF assms(1,2) dt_def, of cast sx sy]
  show ?thesis
    using f by (simp add: x y cx cy)
qed

text \<open>
  Index 27 of the example cube resolves to (3, 2) in frame 1, 100 time units after
  frame 0. With x slope 0 and the double nearest to -0.004999999999999999 as y slope,
  the product is the double -0.49999999999999994, the difference from 2 rounds to the
  double 2.5, and the returned y is 3.
\<close>

theorem get_rnd_coord_back_projects_witness:
  "u_cube example_cube 27 = (3, 2, 1) \<and> 1 < length (m_timestamp_list example_cube) \<and>
   m_timestamp_list example_cube ! 0 \<le> m_timestamp_list example_cube ! 1 \<and>
   round_double (- 4999999999999999 / 10 ^ 18) = Fin (- 2882303761517117 / 576460752303423488) \<and>
   back_projection example_cube 27 (Fin 0) (Fin (- 2882303761517117 / 576460752303423488))
     = (Fin 3, Fin 3, 0) \<and>
   get_rnd_coord x86_64_cast example_cube 27 (Fin 0)
     (Fin (- 2882303761517117 / 576460752303423488)) = Inr (3, 3, 0)"
proof -
  have bp: "back_projection example_cube 27 (Fin 0) (Fin (- 2882303761517117 / 576460752303423488))
     = (Fin 3, Fin 3, 0)"
    by (simp add: back_projection_def example_cube_def cpp_round_def fp_eval round_eval)
  have i: "integer_of (Fin 3) = Some 3" "(0::int) \<le> 3" "(3::int) < 2 ^ 64"
    by (simp_all add: integer_of_def)
  have h: "u_cube example_cube 27 = (3, 2, 1)" "1 < length (m_timestamp_list example_cube)"
      "m_timestamp_list example_cube ! 0 \<le> m_timestamp_list example_cube ! 1"
    by (simp_all add: example_cube_def)
  have r: "round_double (- 4999999999999999 / 10 ^ 18) =
      Fin (- 2882303761517117 / 576460752303423488)"
    by (simp add: round_eval)
  from get_rnd_coord_back_projects [OF h bp i(1) i(1) i(2,3) i(2,3), of x86_64_cast] h r bp
  show ?thesis
    by simp
qed

text \<open>
  Claim C6 as stated fails. Index 16 of the example cube resolves to (0, 0) in frame 1;
  with x slope 1 the back-projected x is -100, and the returned x, a \<^verbatim>\<open>size_t\<close>, is
  not -100 (on x86-64 it is 2^64 - 100).
\<close>

theorem get_rnd_coord_back_projects_counterexample:
  "get_rnd_coord x86_64_cast example_cube 16 (Fin 1) (Fin 0) =
     Inr (18446744073709551516, 0, 0) \<and>
   back_projection example_cube 16 (Fin 1) (Fin 0) = (Fin (- 100), Fin 0, 0) \<and>
   int 18446744073709551516 \<noteq> - 100"
  by (simp add: get_rnd_coord_def example_cube_def timestamp_def double_of_ulong_def
      double_of_size_t_def size_t_of_double_def x86_64_cast_def cpp_round_def
      back_projection_def fp_eval round_eval)




section \<open>Properties of the metadata readers\<close>

lemma read_timestamp_mismatch:
  assumes "env ''TIMESTAMP_FILE'' = Some path" and "fs path = Some ifs"
    and "length (read_values ifs) \<noteq> size_k"
  shows "read_timestamp env fs size_k =
           Inl (Abort (''#of lines in '' @ path @ '' is not the same as #of fits files''))"
  using assms by (simp add: read_timestamp_def)

lemma read_exposuretime_mismatch:
  assumes "env ''EXPOSURETIME_FILE'' = Some path" and "fs path = Some ifs"
    and "length (read_values ifs) \<noteq> size_k"
  shows "read_exposuretime env fs size_k =
           Inl (Abort (''#of lines in '' @ path @ '' is not the same as #of fits files''))"
  using assms by (simp add: read_exposuretime_def)

lemma read_psf_mismatch:
  assumes "env ''PSF_FILE'' = Some path" and "fs path = Some ifs"
    and "length (read_values ifs) \<noteq> size_k"
  shows "read_psf env fs size_k =
           Inl (Abort (''#of lines in '' @ path @ '' is not the same as #of fits files''))"
  using assms by (simp add: read_psf_def)

lemma main_metadata_Inl:
  assumes "(\<exists>e. read_timestamp env fs size_k = Inl e) \<or>
           (\<exists>e. read_exposuretime env fs size_k = Inl e) \<or>
           (\<exists>e. read_psf env fs size_k = Inl e)"
  shows "\<exists>e. main_metadata env fs size_k continue = Inl e"
  using assms by (auto simp: main_metadata_def split: sum.splits)

lemma read_timestamp_length:
  "read_timestamp env fs size_k = Inr xs \<Longrightarrow> length xs = size_k"
  by (auto simp: read_timestamp_def Let_def split: option.splits if_splits)

lemma read_exposuretime_length:
  "read_exposuretime env fs size_k = Inr xs \<Longrightarrow> length xs = size_k"
  by (auto simp: read_exposuretime_def Let_def split: option.splits if_splits)

lemma read_psf_length:
  "read_psf env fs size_k = Inr xs \<Longrightarrow> length xs = size_k"
  by (auto simp: read_psf_def Let_def split: option.splits if_splits)

text \<open>
  Claim C7. When the timestamp, exposure-time or PSF file is configured and opens, and
  the number of values read from it differs from the number of frames, its reader ends
  the process with a message that names the path, and \<^verbatim>\<open>main\<close> ends there: the
  rest of the program, with the parallel region, does not run. When \<^verbatim>\<open>main\<close> does
  go on, each of the three lists it goes on with has one value per frame.
\<close>

theorem metadata_count_mismatch_aborts:
  "(env ''TIMESTAMP_FILE'' = Some path \<and> fs path = Some ifs \<and> length (read_values ifs) \<noteq> size_k
      \<longrightarrow> read_timestamp env fs size_k =
            Inl (Abort (''#of lines in '' @ path @ '' is not the same as #of fits files'')) \<and>
          (\<exists>e. main_metadata env fs size_k continue = Inl e)) \<and>
   (env ''EXPOSURETIME_FILE'' = Some path \<and> fs path = Some ifs \<and> length (read_values ifs) \<noteq> size_k
      \<longrightarrow> read_exposuretime env fs size_k =
            Inl (Abort (''#of lines in '' @ path @ '' is not the same as #of fits files'')) \<and>
          (\<exists>e. main_metadata env fs size_k continue = Inl e)) \<and>
   (env ''PSF_FILE'' = Some path \<and> fs path = Some ifs \<and> length (read_values ifs) \<noteq> size_k
      \<longrightarrow> read_psf env fs size_k =
            Inl (Abort (''#of lines in '' @ path @ '' is not the same as #of fits files'')) \<and>
          (\<exists>e. main_metadata env fs size_k continue = Inl e)) \<and>
   (main_metadata env fs size_k continue = Inr out
      \<longrightarrow> (\<exists>ts ex ps. out = continue ts ex ps \<and> length ts = size_k \<and> length ex = size_k \<and>
             length ps = size_k))"
proof (intro conjI impI)
  assume a: "env ''TIMESTAMP_FILE'' = Some path \<and> fs path = Some ifs \<and>
             length (read_values ifs) \<noteq> size_k"
  then show t: "read_timestamp env fs size_k =
      Inl (Abort (''#of lines in '' @ path @ '' is not the same as #of fits files''))"
    by (simp add: read_timestamp_mismatch)
  show "\<exists>e. main_metadata env fs size_k continue = Inl e"
    by (rule main_metadata_Inl) (simp add: t)
next
  assume a: "env ''EXPOSURETIME_FILE'' = Some path \<and> fs path = Some ifs \<and>
             length (read_values ifs) \<noteq> size_k"
  then show t: "read_exposuretime env fs size_k =
      Inl (Abort (''#of lines in '' @ path @ '' is not the same as #of fits files''))"
    by (simp add: read_exposuretime_mismatch)
  show "\<exists>e. main_metadata env fs size_k continue = Inl e"
    by (rule main_metadata_Inl) (simp add: t)
next
  assume a: "env ''PSF_FILE'' = Some path \<and> fs path = Some ifs \<and>
             length (read_values ifs) \<noteq> size_k"
  then show t: "read_psf env fs size_k =
      Inl (Abort (''#of lines in '' @ path @ '' is not the same as #of fits files''))"
    by (simp add: read_psf_mismatch)
  show "\<exists>e. main_metadata env fs size_k continue = Inl e"
    by (rule main_metadata_Inl) (simp add: t)
next
  assume m: "main_metadata env fs size_k continue = Inr out"
  then obtain ts ex ps where r: "read_timestamp env fs size_k = Inr ts"
      "read_exposuretime env fs size_k = Inr ex" "read_psf env fs size_k = Inr ps"
      and out: "out = continue ts ex ps"
    by (auto simp: main_metadata_def split: sum.splits)
  from r have "length ts = size_k" "length ex = size_k" "length ps = size_k"
    by (simp_all add: read_timestamp_length read_exposuretime_length read_psf_length)
  with out show "\<exists>ts ex ps. out = continue ts ex ps \<and> length ts = size_k \<and>
      length ex = size_k \<and> length ps = size_k"
    by blast
qed

theorem metadata_count_mismatch_aborts_witness:
  "example_env ''TIMESTAMP_FILE'' = Some ''t.txt'' \<and>
   example_fs ''t.txt'' = Some [Some (Fin 0), Some (Fin 100)] \<and>
   length (read_values [Some (Fin 0), Some (Fin 100)]) \<noteq> 3 \<and>
   read_timestamp example_env example_fs 3 =
     Inl (Abort ''#of lines in t.txt is not the same as #of fits files'') \<and>
   example_env ''EXPOSURETIME_FILE'' = Some ''e.txt'' \<and>
   example_fs ''e.txt'' = Some [Some (Fin 40), Some (Fin 40), None, Some (Fin 40)] \<and>
   length (read_values [Some (Fin 40), Some (Fin 40), None, Some (Fin 40)]) \<noteq> 3 \<and>
   read_exposuretime example_env example_fs 3 =
     Inl (Abort ''#of lines in e.txt is not the same as #of fits files'') \<and>
   example_env ''PSF_FILE'' = Some ''p.txt'' \<and>
   example_fs ''p.txt'' = Some [Some (Fin 1), Some (Fin 1), Some (Fin 1), Some (Fin 1)] \<and>
   length (read_values [Some (Fin 1), Some (Fin 1), Some (Fin 1), Some (Fin 1)]) \<noteq> 3 \<and>
   read_psf example_env example_fs 3 =
     Inl (Abort ''#of lines in p.txt is not the same as #of fits files'') \<and>
   (\<exists>e. main_metadata example_env example_fs 3 (\<lambda>ts ex ps. (ts, ex, ps)) = Inl e) \<and>
   main_metadata Map.empty Map.empty 3 (\<lambda>ts ex ps. (ts, ex, ps)) =
     Inr ([Fin 0, Fin 1, Fin 2], [Fin 40, Fin 40, Fin 40], [Fin 1, Fin 1, Fin 1])"
  using
    metadata_count_mismatch_aborts [of example_env "''t.txt''" example_fs
      "[Some (Fin 0), Some (Fin 100)]" 3 "\<lambda>ts ex ps. (ts, ex, ps)"]
    metadata_count_mismatch_aborts [of example_env "''e.txt''" example_fs
      "[Some (Fin 40), Some (Fin 40), None, Some (Fin 40)]" 3 "\<lambda>ts ex ps. (ts, ex, ps)"]
    metadata_count_mismatch_aborts [of example_env "''p.txt''" example_fs
      "[Some (Fin 1), Some (Fin 1), Some (Fin 1), Some (Fin 1)]" 3 "\<lambda>ts ex ps. (ts, ex, ps)"]
    metadata_count_mismatch_aborts [of Map.empty "''''" Map.empty "[]" 3
      "\<lambda>ts ex ps. (ts, ex, ps)" "([Fin 0, Fin 1, Fin 2], [Fin 40, Fin 40, Fin 40], [Fin 1, Fin 1, Fin 1])"]
  by (simp add: example_env_def example_fs_def main_metadata_def read_timestamp_def
      read_exposuretime_def read_psf_def double_of_size_t_def upt_rec fp_eval round_eval)

section \<open>Properties of the shooting engine and of the output\<close>

lemma worker_init_slope_file:
  "worker_init L (Some name) = worker_init L None"
  by (rule ext) (simp add: worker_init_def slope_distribution_declared_def)

text \<open>
  Claim C1, on the code. With \<^verbatim>\<open>SLOPE_PDF_FILE\<close> set, the object that
  \<^verbatim>\<open>slope_distribution()\<close> calls in the loop is still the \<^verbatim>\<open>beta_distribution(3, 2)\<close>:
  \<^verbatim>\<open>shoot_vector\<close> returns what it returns when no file is configured. In the example
  the beta distribution returns (1, 2) and the custom one (7, 7), and both draws store
  the slopes (1, 2).
\<close>

theorem slope_file_is_ignored:
  "fst (slope_distribution_declared L (Some name)) = Beta_object (beta_distribution L 3 2) \<and>
   shoot_vector L c N (Some name) events = shoot_vector L c N None events \<and>
   map (\<lambda>row. (x_slope (fst row), y_slope (fst row)))
     (snd (shoot_vector example_library example_cube 2 (Some ''slopes.txt'') (sequential_run 2)))
     = [(Fin 1, Fin 2), (Fin 1, Fin 2)]"
  by (simp add: slope_distribution_declared_def shoot_vector_def shoot_init_def worker_init_slope_file
     worker_init_def example_library_def draw_def numeral_2_eq_2 default_row_def)

text \<open>
  Claim C4, on the code. Two threads, one draw each, one second measured for each draw.
  When both threads read \<^verbatim>\<open>total_execution_time\<close> before either has written it,
  the function returns 1 as the summed time; when the second thread reads after the
  first has written, it returns 2.
\<close>

theorem timing_counter_lost_update:
  "omp_run 2 [Draw 0 0, Draw 1 1, Commit 0, Commit 1] \<and>
   fst (shoot_vector example_library example_cube 2 None [Draw 0 0, Draw 1 1, Commit 0, Commit 1])
     = Fin 1 \<and>
   fst (shoot_vector example_library example_cube 2 None [Draw 0 0, Commit 0, Draw 1 1, Commit 1])
     = Fin 2"
  by (simp add: omp_run_def shoot_vector_def shoot_init_def worker_init_def example_library_def
      draw_def slope_distribution_declared_def upt_rec fp_eval round_eval)

lemma length_result_foldl:
  "length (result (foldl (shoot_step L c) s events)) = length (result s)"
proof (induction events arbitrary: s)
  case Nil
  show ?case by simp
next
  case (Cons e es)
  have "length (result (shoot_step L c s e)) = length (result s)"
    by (cases e) (simp_all split: prod.splits option.splits)
  with Cons show ?case by simp
qed








lemma start_dist_bound_size:
  assumes "0 < n" and "n \<le> 2 ^ 31"
  shows "start_dist_bound n = int n - 1"
proof -
  have "(n + 2 ^ 64 - 1) mod 2 ^ 64 = n - 1"
  proof -
    have e: "n + 2 ^ 64 - 1 = (n - 1) + 2 ^ 64" using assms(1) by simp
    have lt: "n - 1 < (2::nat) ^ 64" using assms(2) by simp
    have "((n - 1) + 2 ^ 64) mod 2 ^ 64 = (n - 1) mod 2 ^ 64"
      by (rule mod_add_self2)
    also have "\<dots> = n - 1" using lt by (rule mod_less)
    finally show ?thesis by (simp only: e)
  qed
  moreover have "int (n - 1) mod 2 ^ 32 = int (n - 1)"
    using assms by simp
  moreover have "int (n - 1) < 2 ^ 31" using assms by simp
  moreover have "int (n - 1) = int n - 1" using assms(1) by simp
  ultimately show ?thesis
    by (simp add: start_dist_bound_def int_of_size_t_def Let_def)
qed

lemma integer_below_double_of_int:
  "0 \<le> v \<Longrightarrow> v < int n \<Longrightarrow> integer_below n (double_of_int v)"
  by (simp add: integer_below_def double_of_int_def)

lemma draw_intercepts:
  assumes "\<forall>a b r. a \<le> b \<longrightarrow> a \<le> fst (uniform_int_distribution L a b r) \<and>
             fst (uniform_int_distribution L a b r) \<le> b"
    and "0 < m_size_x c" "m_size_x c \<le> 2 ^ 31" "0 < m_size_y c" "m_size_y c \<le> 2 ^ 31"
  shows "integer_below (m_size_x c) (x_intercept (fst (fst (draw L c w)))) \<and>
         integer_below (m_size_y c) (y_intercept (fst (fst (draw L c w))))"
proof -
  have bx: "start_dist_bound (m_size_x c) = int (m_size_x c) - 1"
    using assms(2,3) by (rule start_dist_bound_size)
  have by': "start_dist_bound (m_size_y c) = int (m_size_y c) - 1"
    using assms(4,5) by (rule start_dist_bound_size)
  have range: "0 \<le> fst (uniform_int_distribution L 0 (int n - 1) r) \<and>
        fst (uniform_int_distribution L 0 (int n - 1) r) < int n" if "0 < n" for n r
  proof -
    from that have "(0::int) \<le> int n - 1" by simp
    with assms(1) have "0 \<le> fst (uniform_int_distribution L 0 (int n - 1) r) \<and>
        fst (uniform_int_distribution L 0 (int n - 1) r) \<le> int n - 1"
      by blast
    then show ?thesis by simp
  qed
  obtain slopes d where s: "call_slope_distribution L (slope_distribution w) = (slopes, d)"
    by (cases "call_slope_distribution L (slope_distribution w)")
  obtain xi e1 where
    x: "uniform_int_distribution L 0 (int (m_size_x c) - 1) (rnd_engine w) = (xi, e1)"
    by (cases "uniform_int_distribution L 0 (int (m_size_x c) - 1) (rnd_engine w)")
  obtain yi e2 where y: "uniform_int_distribution L 0 (int (m_size_y c) - 1) e1 = (yi, e2)"
    by (cases "uniform_int_distribution L 0 (int (m_size_y c) - 1) e1")
  from range [OF assms(2), of "rnd_engine w"] x have xi: "0 \<le> xi \<and> xi < int (m_size_x c)"
    by simp
  from range [OF assms(4), of e1] y have yi: "0 \<le> yi \<and> yi < int (m_size_y c)"
    by simp
  from xi yi show ?thesis
    by (simp add: draw_def bx by' s x y Let_def integer_below_double_of_int)
qed

lemma draw_indices_append:
  "draw_indices (xs @ ys) = draw_indices xs @ draw_indices ys"
  by (induction xs rule: draw_indices.induct) simp_all

lemma drawn_rows_in_range:
  assumes "\<forall>a b r. a \<le> b \<longrightarrow> a \<le> fst (uniform_int_distribution L a b r) \<and>
             fst (uniform_int_distribution L a b r) \<le> b"
    and "0 < m_size_x c" "m_size_x c \<le> 2 ^ 31" "0 < m_size_y c" "m_size_y c \<le> 2 ^ 31"
    and "i \<in> set (draw_indices events)" and "i < length (result s)"
  shows "integer_below (m_size_x c) (x_intercept (fst (result (foldl (shoot_step L c) s events) ! i))) \<and>
         integer_below (m_size_y c) (y_intercept (fst (result (foldl (shoot_step L c) s events) ! i)))"
  using assms(6)
proof (induction events rule: rev_induct)
  case Nil
  then show ?case by simp
next
  case (snoc e es)
  let ?s = "foldl (shoot_step L c) s es"
  have len: "i < length (result ?s)"
    using assms(7) by (simp add: length_result_foldl)
  show ?case
  proof (cases e)
    case (Draw t j)
    show ?thesis
    proof (cases "j = i")
      case True
      obtain row w where d: "draw L c (workers ?s t) = (row, w)"
        by (cases "draw L c (workers ?s t)")
      from draw_intercepts [OF assms(1-5), of "workers ?s t"]
      have "integer_below (m_size_x c) (x_intercept (fst row)) \<and>
            integer_below (m_size_y c) (y_intercept (fst row))"
        by (simp add: d)
      with Draw True len d show ?thesis by simp
    next
      case False
      with Draw snoc.prems have "i \<in> set (draw_indices es)"
        by (simp add: draw_indices_append)
      with snoc.IH Draw False show ?thesis
        by (simp split: prod.splits)
    qed
  next
    case (Commit t)
    with snoc.prems have "i \<in> set (draw_indices es)"
      by (simp add: draw_indices_append)
    with snoc.IH Commit show ?thesis
      by (simp split: option.splits prod.splits)
  qed
qed

text \<open>
  Claim C9. The start distributions return an \<^verbatim>\<open>int\<close> between their bounds (the
  contract of \<^verbatim>\<open>std::uniform_int_distribution\<close>, an assumption on the library), and
  the cube has between 1 and 2^31 pixels in each direction, so that \<^verbatim>\<open>size - 1\<close>
  fits the \<^verbatim>\<open>int\<close> bound. Then, whatever the steps of the threads, the trajectory
  stored for each index that was drawn has an integer-valued x intercept in
  {0, ..., size_x - 1} and an integer-valued y intercept in {0, ..., size_y - 1}.
\<close>

theorem stored_intercepts_in_range:
  assumes "i \<in> set (draw_indices events)" and "i < N"
    and "\<forall>a b r. a \<le> b \<longrightarrow> a \<le> fst (uniform_int_distribution L a b r) \<and>
             fst (uniform_int_distribution L a b r) \<le> b"
    and "0 < m_size_x c" "m_size_x c \<le> 2 ^ 31" "0 < m_size_y c" "m_size_y c \<le> 2 ^ 31"
  shows "integer_below (m_size_x c) (x_intercept (fst (snd (shoot_vector L c N f events) ! i))) \<and>
         integer_below (m_size_y c) (y_intercept (fst (snd (shoot_vector L c N f events) ! i)))"
proof -
  have len: "i < length (result (shoot_init L N f))"
    using assms(2) by (simp add: shoot_init_def)
  from drawn_rows_in_range [OF assms(3-7) assms(1) len] show ?thesis
    by (simp add: shoot_vector_def Let_def)
qed


theorem stored_intercepts_in_range_witness:
  "omp_run 2 [Draw 0 1, Draw 1 0, Commit 1, Commit 0] \<and>
   m_size_x example_cube = 4 \<and> m_size_y example_cube = 4 \<and>
   integer_below 4 (x_intercept (fst (snd (shoot_vector example_library example_cube 2 None
      [Draw 0 1, Draw 1 0, Commit 1, Commit 0]) ! 1))) \<and>
   integer_below 4 (y_intercept (fst (snd (shoot_vector example_library example_cube 2 None
      [Draw 0 1, Draw 1 0, Commit 1, Commit 0]) ! 1))) \<and>
   map (\<lambda>row. (x_intercept (fst row), y_intercept (fst row)))
     (snd (shoot_vector example_library example_cube 2 None
        [Draw 0 1, Draw 1 0, Commit 1, Commit 0])) = [(Fin 0, Fin 1), (Fin 3, Fin 0)]"
proof -
  have run: "omp_run 2 [Draw 0 1, Draw 1 0, Commit 1, Commit 0]"
    by (simp add: omp_run_def upt_rec)
  have contract: "\<forall>a b r. a \<le> b \<longrightarrow>
      a \<le> fst (uniform_int_distribution example_library a b r) \<and>
      fst (uniform_int_distribution example_library a b r) \<le> b"
  proof (intro allI impI)
    fix a b :: int and r :: nat
    assume "a \<le> b"
    then have pos: "0 < b - a + 1" by simp
    have lo: "0 \<le> int r mod (b - a + 1)" using pos by (rule pos_mod_sign)
    have hi: "int r mod (b - a + 1) < b - a + 1" using pos by (rule pos_mod_bound)
    from lo hi show "a \<le> fst (uniform_int_distribution example_library a b r) \<and>
      fst (uniform_int_distribution example_library a b r) \<le> b"
      by (simp add: example_library_def)
  qed
  have drawn: "1 \<in> set (draw_indices [Draw 0 1, Draw 1 0, Commit 1, Commit 0])" "(1::nat) < 2"
    by simp_all
  have sizes: "0 < m_size_x example_cube" "m_size_x example_cube \<le> 2 ^ 31"
      "0 < m_size_y example_cube" "m_size_y example_cube \<le> 2 ^ 31"
    by (simp_all add: example_cube_def)
  have rows: "map (\<lambda>row. (x_intercept (fst row), y_intercept (fst row)))
     (snd (shoot_vector example_library example_cube 2 None
        [Draw 0 1, Draw 1 0, Commit 1, Commit 0])) = [(Fin 0, Fin 1), (Fin 3, Fin 0)]"
  proof -
    have b: "start_dist_bound 4 = 3"
      by (simp add: start_dist_bound_def int_of_size_t_def)
    have r: "replicate 2 default_row = [default_row, default_row]"
      by (simp add: numeral_2_eq_2)
    show ?thesis
      by (simp add: shoot_vector_def shoot_init_def worker_init_def example_library_def draw_def
          slope_distribution_declared_def r b example_cube_def double_of_int_def)
  qed
  from stored_intercepts_in_range [OF drawn contract sizes, of None] run rows
  show ?thesis
    by (simp add: example_cube_def)
qed

end
